theory Spec2Isabelle
  imports Main "HOL-Library.Word"
begin

section \<open>Text\<close>

text \<open>
  Python's \<^verbatim>\<open>str\<close> is modelled by \<^typ>\<open>string\<close>. A character of the model is a
  code point below 256, so each helper below follows what CPython does on those code
  points. The helpers are the \<^verbatim>\<open>str\<close> methods and operators that \<^verbatim>\<open>base.py\<close> calls.
\<close>

definition whitespace :: string where
  "whitespace = [CHR 0x09, CHR 0x0A, CHR 0x0B, CHR 0x0C, CHR 0x0D, CHR 0x1C, CHR 0x1D,
     CHR 0x1E, CHR 0x1F, CHR 0x20, CHR 0x85, CHR 0xA0]"

definition is_space :: "char \<Rightarrow> bool" where
  "is_space c = (c \<in> set whitespace)"

text \<open>\<^verbatim>\<open>s.strip()\<close>\<close>

definition strip :: "string \<Rightarrow> string" where
  "strip s = rev (dropWhile is_space (rev (dropWhile is_space s)))"

text \<open>\<^verbatim>\<open>s.startswith(p)\<close> and \<^verbatim>\<open>s.endswith(p)\<close>\<close>

definition startswith :: "string \<Rightarrow> string \<Rightarrow> bool" where
  "startswith s p = (take (length p) s = p)"

definition endswith :: "string \<Rightarrow> string \<Rightarrow> bool" where
  "endswith s p = (length p \<le> length s \<and> drop (length s - length p) s = p)"

text \<open>\<^verbatim>\<open>s.find(sub)\<close>: the index of the first occurrence, if there is one.\<close>

fun find_str :: "string \<Rightarrow> string \<Rightarrow> nat option" where
  "find_str [] sub = (if sub = [] then Some 0 else None)"
| "find_str (c # cs) sub =
     (if startswith (c # cs) sub then Some 0 else map_option Suc (find_str cs sub))"

text \<open>\<^verbatim>\<open>sub in s\<close>\<close>

definition contains :: "string \<Rightarrow> string \<Rightarrow> bool" where
  "contains s sub = (find_str s sub \<noteq> None)"

text \<open>\<^verbatim>\<open>s[i:j]\<close> for indices counted from the start, and \<^verbatim>\<open>s[i:-k]\<close>.\<close>

definition str_slice :: "string \<Rightarrow> nat \<Rightarrow> nat \<Rightarrow> string" where
  "str_slice s i j = take (j - i) (drop i s)"

definition slice_to_neg :: "string \<Rightarrow> nat \<Rightarrow> nat \<Rightarrow> string" where
  "slice_to_neg s i k = drop i (take (length s - k) s)"

text \<open>\<^verbatim>\<open>s.split(d, 1)\<close> when \<^verbatim>\<open>d\<close> occurs in \<^verbatim>\<open>s\<close>: the text before and after its
  first occurrence. \<^const>\<open>None\<close> when it does not occur (the split has one part).\<close>

definition split_first :: "char \<Rightarrow> string \<Rightarrow> (string \<times> string) option" where
  "split_first d s =
     (if d \<in> set s then Some (takeWhile (\<lambda>c. c \<noteq> d) s, tl (dropWhile (\<lambda>c. c \<noteq> d) s))
      else None)"

text \<open>\<^verbatim>\<open>s.split(d)\<close> for a one-character separator.\<close>

fun split_on :: "char \<Rightarrow> string \<Rightarrow> string list" where
  "split_on d [] = [[]]"
| "split_on d (c # cs) =
     (if c = d then [] # split_on d cs
      else (case split_on d cs of w # ws \<Rightarrow> (c # w) # ws | [] \<Rightarrow> [[c]]))"

text \<open>\<^verbatim>\<open>s.replace(old, new, 1)\<close>\<close>

definition replace_first :: "string \<Rightarrow> string \<Rightarrow> string \<Rightarrow> string" where
  "replace_first s old new =
     (case find_str s old of
        None \<Rightarrow> s
      | Some i \<Rightarrow> take i s @ new @ drop (i + length old) s)"

text \<open>\<^verbatim>\<open>s.isidentifier()\<close>: a start character (a letter or the underscore) followed by
  continuation characters (start characters, digits, the middle dot).\<close>

definition id_start :: string where
  "id_start = ''abcdefghijklmnopqrstuvwxyzABCDEFGHIJKLMNOPQRSTUVWXYZ_'' @
     [CHR 0xAA, CHR 0xB5, CHR 0xBA,
      CHR 0xC0, CHR 0xC1, CHR 0xC2, CHR 0xC3, CHR 0xC4, CHR 0xC5, CHR 0xC6, CHR 0xC7,
      CHR 0xC8, CHR 0xC9, CHR 0xCA, CHR 0xCB, CHR 0xCC, CHR 0xCD, CHR 0xCE, CHR 0xCF,
      CHR 0xD0, CHR 0xD1, CHR 0xD2, CHR 0xD3, CHR 0xD4, CHR 0xD5, CHR 0xD6,
      CHR 0xD8, CHR 0xD9, CHR 0xDA, CHR 0xDB, CHR 0xDC, CHR 0xDD, CHR 0xDE, CHR 0xDF,
      CHR 0xE0, CHR 0xE1, CHR 0xE2, CHR 0xE3, CHR 0xE4, CHR 0xE5, CHR 0xE6, CHR 0xE7,
      CHR 0xE8, CHR 0xE9, CHR 0xEA, CHR 0xEB, CHR 0xEC, CHR 0xED, CHR 0xEE, CHR 0xEF,
      CHR 0xF0, CHR 0xF1, CHR 0xF2, CHR 0xF3, CHR 0xF4, CHR 0xF5, CHR 0xF6,
      CHR 0xF8, CHR 0xF9, CHR 0xFA, CHR 0xFB, CHR 0xFC, CHR 0xFD, CHR 0xFE, CHR 0xFF]"

definition id_continue :: string where
  "id_continue = id_start @ ''0123456789'' @ [CHR 0xB7]"

definition isidentifier :: "string \<Rightarrow> bool" where
  "isidentifier s =
     (case s of
        [] \<Rightarrow> False
      | c # cs \<Rightarrow> c \<in> set id_start \<and> list_all (\<lambda>d. d \<in> set id_continue) cs)"

section \<open>Values, expressions and the host\<close>

text \<open>
  A value of the language is a Python \<^verbatim>\<open>int\<close>, \<^verbatim>\<open>float\<close>, \<^verbatim>\<open>complex\<close> or \<^verbatim>\<open>str\<close>:
  these are what a numeric or string literal, a line of input and the four operators
  produce. A \<^verbatim>\<open>float\<close> is its IEEE 754 binary64 bit pattern and a \<^verbatim>\<open>complex\<close> is a pair
  of them; their arithmetic and their printing belong to the host.
\<close>

type_synonym pyfloat = "64 word"

datatype pynum = PInt int | PFloat pyfloat | PComplex pyfloat pyfloat

datatype pyval = VNum pynum | VStr string

text \<open>
  The tree that \<^verbatim>\<open>ast.parse(expr, mode='eval')\<close> returns, as far as \<^verbatim>\<open>_eval\<close> tells
  nodes apart: \<^verbatim>\<open>ast.BinOp\<close> with the type of its operator, \<^verbatim>\<open>ast.Num\<close>, \<^verbatim>\<open>ast.Name\<close>,
  \<^verbatim>\<open>ast.Str\<close>, and any other node, which carries its \<^verbatim>\<open>ast.dump\<close>.
\<close>

datatype operator = Add | Sub | Mult | Div | OtherOp

datatype expr =
    BinOp expr operator expr
  | Num pynum
  | Name string
  | Str string
  | OtherNode string

text \<open>
  The library functions that \<^verbatim>\<open>base.py\<close> calls and that are not text operations.
  Where the Python function can raise, the field returns an option and \<^const>\<open>None\<close> is
  the exception; \<^verbatim>\<open>time.sleep\<close> returns the message of its exception instead.
\<close>

record host =
  ast_parse :: "string \<Rightarrow> expr option"
  operator_add :: "pyval \<Rightarrow> pyval \<Rightarrow> pyval option"
  operator_sub :: "pyval \<Rightarrow> pyval \<Rightarrow> pyval option"
  operator_mul :: "pyval \<Rightarrow> pyval \<Rightarrow> pyval option"
  operator_truediv :: "pyval \<Rightarrow> pyval \<Rightarrow> pyval option"
  int_of_str :: "string \<Rightarrow> int option"
  str_of_num :: "pynum \<Rightarrow> string"
  time_sleep :: "pynum \<Rightarrow> string option"

text \<open>\<^verbatim>\<open>str(value)\<close>\<close>

definition str_of :: "host \<Rightarrow> pyval \<Rightarrow> string" where
  "str_of h v = (case v of VStr t \<Rightarrow> t | VNum n \<Rightarrow> str_of_num h n)"

section \<open>The interpreter state\<close>

text \<open>
  The exceptions that leave a method of \<^verbatim>\<open>SimpliMath\<close>. \<open>HostError\<close> is an exception of
  an operator function (\<^verbatim>\<open>TypeError\<close>, \<^verbatim>\<open>ZeroDivisionError\<close>, ...); \<open>KeyError\<close> is the
  lookup of an operator outside \<^verbatim>\<open>ops\<close>; \<open>ValueError\<close> is the unpacking of a split with
  one part; \<open>EOFError\<close> is \<^verbatim>\<open>input()\<close> at the end of the standard input.
\<close>

datatype error =
    SyntaxError string
  | RuntimeError string
  | KeyError
  | ValueError
  | HostError
  | EOFError

text \<open>What the program does to its terminal, oldest event first.\<close>

datatype event = Print string | ReadLine string | Sleep pynum

text \<open>
  The fields of a \<^verbatim>\<open>SimpliMath\<close> object, and the terminal: the lines of standard input
  not yet read and the events so far.
\<close>

record interp =
  variables :: "string \<rightharpoonup> pyval"
  outputs :: "string list"
  inputs :: "(string option \<times> string) list"
  code_running :: bool
  hold :: bool
  stdin :: "string list"
  trace :: "event list"

text \<open>A method returns its value or raises, and leaves a state either way.\<close>

type_synonym 'a result = "(error + 'a) \<times> interp"

text \<open>\<^verbatim>\<open>SimpliMath.__init__\<close>, with the standard input given.\<close>

definition init :: "string list \<Rightarrow> interp" where
  "init lines =
     \<lparr>variables = Map.empty, outputs = [], inputs = [], code_running = True, hold = False,
      stdin = lines, trace = []\<rparr>"

definition print :: "string \<Rightarrow> interp \<Rightarrow> interp" where
  "print text s = s\<lparr>trace := trace s @ [Print text]\<rparr>"

section \<open>Loop and hold\<close>

definition handle_loop :: "interp \<Rightarrow> string \<Rightarrow> unit result" where
  "handle_loop s command =
     (let condition = strip (slice_to_neg command 9 1) in
      if condition \<in> dom (variables s) \<and> variables s condition = Some (VStr ''true'')
      then (Inr (), s\<lparr>hold := True\<rparr>)
      else (Inr (), s\<lparr>hold := False\<rparr>))"

definition finish_loop :: "interp \<Rightarrow> unit result" where
  "finish_loop s = (Inr (), s\<lparr>hold := False\<rparr>)"

definition not_hold :: "interp \<Rightarrow> unit result" where
  "not_hold s = (Inr (), s\<lparr>hold := \<not> hold s\<rparr>)"

section \<open>Queuing an input request\<close>

definition queue_input :: "interp \<Rightarrow> string \<Rightarrow> unit result" where
  "queue_input s command =
     (if CHR ''='' \<in> set command then
        (case split_first CHR ''='' command of
           None \<Rightarrow> (Inl ValueError, s)
         | Some (l, r) \<Rightarrow>
             (let var_name = strip l; input_call = strip r in
              if \<not> isidentifier var_name
              then (Inl (SyntaxError (''Invalid variable name: '' @ var_name)), s)
              else if startswith input_call ''input(\"'' \<and> endswith input_call ''\")''
              then (Inr (),
                    s\<lparr>inputs := inputs s @ [(Some var_name, strip (slice_to_neg input_call 7 2))]\<rparr>)
              else (Inl (SyntaxError (''Invalid input command: '' @ command)), s)))
      else if startswith command ''input(\"'' \<and> endswith command ''\")''
      then (Inr (), s\<lparr>inputs := inputs s @ [(None, strip (slice_to_neg command 7 2))]\<rparr>)
      else (Inl (SyntaxError (''Invalid input syntax: '' @ command)), s))"

section \<open>The expression evaluator\<close>

text \<open>The table \<^verbatim>\<open>ops\<close> of \<^verbatim>\<open>evaluate_expression\<close>.\<close>

fun ops :: "host \<Rightarrow> operator \<Rightarrow> (pyval \<Rightarrow> pyval \<Rightarrow> pyval option) option" where
  "ops h Add = Some (operator_add h)"
| "ops h Sub = Some (operator_sub h)"
| "ops h Mult = Some (operator_mul h)"
| "ops h Div = Some (operator_truediv h)"
| "ops h OtherOp = None"

text \<open>The nested function \<^verbatim>\<open>_eval\<close>.\<close>

fun eval_node :: "host \<Rightarrow> interp \<Rightarrow> expr \<Rightarrow> pyval result" where
  "eval_node h s (BinOp l opr r) =
     (case eval_node h s l of
        (Inl e, s1) \<Rightarrow> (Inl e, s1)
      | (Inr left, s1) \<Rightarrow>
          (case eval_node h s1 r of
             (Inl e, s2) \<Rightarrow> (Inl e, s2)
           | (Inr right, s2) \<Rightarrow>
               (case ops h opr of
                  None \<Rightarrow> (Inl KeyError, s2)
                | Some f \<Rightarrow>
                    (case f left right of
                       None \<Rightarrow> (Inl HostError, s2)
                     | Some v \<Rightarrow> (Inr v, s2)))))"
| "eval_node h s (Num n) = (Inr (VNum n), s)"
| "eval_node h s (Name x) =
     (case variables s x of
        Some v \<Rightarrow> (Inr v, s)
      | None \<Rightarrow> (Inl (SyntaxError (''Undefined variable: '' @ x)), s))"
| "eval_node h s (Str t) = (Inr (VStr t), s)"
| "eval_node h s (OtherNode d) = (Inl (SyntaxError (''Unsupported expression: '' @ d)), s)"

text \<open>The \<^verbatim>\<open>try\<close> block turns every exception of the parser and of \<^verbatim>\<open>_eval\<close> into one
  \<^verbatim>\<open>SyntaxError\<close>.\<close>

definition evaluate_expression :: "host \<Rightarrow> interp \<Rightarrow> string \<Rightarrow> pyval result" where
  "evaluate_expression h s expr =
     (case ast_parse h expr of
        None \<Rightarrow> (Inl (SyntaxError (''Invalid arithmetic or string expression: '' @ expr)), s)
      | Some tree \<Rightarrow>
          (case eval_node h s tree of
             (Inl e, s') \<Rightarrow>
               (Inl (SyntaxError (''Invalid arithmetic or string expression: '' @ expr)), s')
           | (Inr v, s') \<Rightarrow> (Inr v, s')))"

section \<open>Assignment and end\<close>

definition assign_variable :: "host \<Rightarrow> interp \<Rightarrow> string \<Rightarrow> unit result" where
  "assign_variable h s command =
     (if \<not> code_running s
      then (Inl (RuntimeError ''Code has already ended. Use 'end' to restart.''), s)
      else
        (case split_first CHR ''='' command of
           None \<Rightarrow> (Inl ValueError, s)
         | Some (l, r) \<Rightarrow>
             (let var_name = strip l; val = strip r in
              if \<not> isidentifier var_name
              then (Inl (SyntaxError (''Invalid variable name: '' @ var_name)), s)
              else
                (case evaluate_expression h s val of
                   (Inl e, s') \<Rightarrow>
                     (Inl (SyntaxError (''Invalid value or expression: '' @ val)), s')
                 | (Inr v, s') \<Rightarrow>
                     (Inr (), s'\<lparr>variables := (variables s')(var_name \<mapsto> v)\<rparr>)))))"

definition end_program :: "interp \<Rightarrow> unit result" where
  "end_program s = (Inr (), print ''---Execution of function is below---'' (s\<lparr>code_running := False\<rparr>))"

section \<open>The command parser\<close>

definition parse_command :: "host \<Rightarrow> interp \<Rightarrow> string \<Rightarrow> unit result" where
  "parse_command h s command =
     (if command = [] \<or> startswith command ''***'' then (Inr (), s)
      else if CHR ''='' \<in> set command \<and> contains command ''input('' \<and> endswith command '')''
      then queue_input s command
      else if startswith command ''output('' \<and> endswith command '')''
      then (Inr (), s\<lparr>outputs := outputs s @ [command]\<rparr>)
      else if startswith command ''wait('' \<and> endswith command '')''
      then (Inr (), s\<lparr>outputs := outputs s @ [command]\<rparr>)
      else if startswith command ''loop if('' \<and> endswith command '')''
      then handle_loop s command
      else if command = ''finish loop'' then finish_loop s
      else if startswith command ''not hold'' then not_hold s
      else if command = ''end'' then end_program s
      else if CHR ''='' \<in> set command then assign_variable h s command
      else (Inl (SyntaxError (''Unknown command: '' @ command)), s))"

section \<open>Template substitution\<close>

text \<open>
  The \<^verbatim>\<open>while\<close> loop of \<^verbatim>\<open>format_string\<close> has no bound: the function is partial, and
  \<^const>\<open>None\<close> is a call that does not return. \<^verbatim>\<open>template.index\<close> raises \<^verbatim>\<open>ValueError\<close>
  when the text is absent.
\<close>

partial_function (option) format_string :: "host \<Rightarrow> interp \<Rightarrow> string \<Rightarrow> string result option" where
  [code]: "format_string h s template =
     (if contains template ''/{'' \<and> contains template ''}/'' then
        (case find_str template ''/{'' of
           None \<Rightarrow> Some (Inl ValueError, s)
         | Some i \<Rightarrow>
             (case find_str template ''}/'' of
                None \<Rightarrow> Some (Inl ValueError, s)
              | Some end \<Rightarrow>
                  (case variables s (strip (str_slice template (i + 2) end)) of
                     Some v \<Rightarrow>
                       format_string h s
                         (replace_first template
                            (''/{'' @ strip (str_slice template (i + 2) end) @ ''}/'') (str_of h v))
                   | None \<Rightarrow>
                       Some (Inl (SyntaxError (''Undefined variable in string: '' @
                                    strip (str_slice template (i + 2) end))), s))))
      else Some (Inr template, s))"

section \<open>Wait\<close>

text \<open>\<^verbatim>\<open>str(e)\<close> for the exception that \<^verbatim>\<open>handle_wait\<close> catches. Its \<^verbatim>\<open>try\<close> block raises a
  \<^verbatim>\<open>SyntaxError\<close> or an exception of \<^verbatim>\<open>time.sleep\<close>, whose message the host gives.\<close>

fun message :: "error \<Rightarrow> string" where
  "message (SyntaxError m) = m"
| "message (RuntimeError m) = m"
| "message e = []"

definition handle_wait :: "host \<Rightarrow> interp \<Rightarrow> string \<Rightarrow> unit result" where
  "handle_wait h s val =
     (case evaluate_expression h s val of
        (Inl e, s1) \<Rightarrow> (Inl (SyntaxError (''Error in wait command: '' @ message e)), s1)
      | (Inr (VStr t), s1) \<Rightarrow>
          (Inl (SyntaxError (''Error in wait command: Invalid duration for wait: '' @ val)), s1)
      | (Inr (VNum (PComplex re im)), s1) \<Rightarrow>
          (Inl (SyntaxError (''Error in wait command: Invalid duration for wait: '' @ val)), s1)
      | (Inr (VNum duration), s1) \<Rightarrow>
          (let s2 = print (''Waiting for '' @ str_of_num h duration @ '' seconds...'') s1 in
           case time_sleep h duration of
             Some m \<Rightarrow> (Inl (SyntaxError (''Error in wait command: '' @ m)), s2)
           | None \<Rightarrow> (Inr (), s2\<lparr>trace := trace s2 @ [Sleep duration]\<rparr>)))"

section \<open>The two phases after the parse pass\<close>

text \<open>The loop of \<^verbatim>\<open>resolve_inputs\<close> over the queue.\<close>

fun run_inputs :: "host \<Rightarrow> interp \<Rightarrow> (string option \<times> string) list \<Rightarrow> unit result" where
  "run_inputs h s [] = (Inr (), s)"
| "run_inputs h s ((var_name, prompt) # rest) =
     (let s1 = print prompt s in
      case stdin s1 of
        [] \<Rightarrow> (Inl EOFError, s1)
      | user_input # unread \<Rightarrow>
          (let s2 = s1\<lparr>stdin := unread, trace := trace s1 @ [ReadLine user_input]\<rparr>;
               val = (case int_of_str h user_input of
                        Some n \<Rightarrow> VNum (PInt n)
                      | None \<Rightarrow> VStr user_input)
           in run_inputs h
                (case var_name of
                   None \<Rightarrow> s2
                 | Some x \<Rightarrow> if x = [] then s2 else s2\<lparr>variables := (variables s2)(x \<mapsto> val)\<rparr>)
                rest))"

definition resolve_inputs :: "host \<Rightarrow> interp \<Rightarrow> unit result" where
  "resolve_inputs h s = run_inputs h s (inputs s)"

text \<open>The loop of \<^verbatim>\<open>handle_outputs\<close> over the queue.\<close>

fun run_outputs :: "host \<Rightarrow> interp \<Rightarrow> string list \<Rightarrow> unit result option" where
  "run_outputs h s [] = Some (Inr (), s)"
| "run_outputs h s (command # rest) =
     (if startswith command ''output('' \<and> endswith command '')'' then
        (case format_string h s (strip (slice_to_neg command 7 1)) of
           None \<Rightarrow> None
         | Some (Inl e, s1) \<Rightarrow> Some (Inl e, s1)
         | Some (Inr formatted_value, s1) \<Rightarrow> run_outputs h (print formatted_value s1) rest)
      else if startswith command ''wait('' \<and> endswith command '')'' then
        (case handle_wait h s (strip (slice_to_neg command 5 1)) of
           (Inl e, s1) \<Rightarrow> Some (Inl e, s1)
         | (Inr u, s1) \<Rightarrow> run_outputs h s1 rest)
      else Some (Inl (SyntaxError (''Unknown or unsupported command during execution: '' @
                        command)), s))"

definition handle_outputs :: "host \<Rightarrow> interp \<Rightarrow> unit result option" where
  "handle_outputs h s = run_outputs h (print ''---Execution of code is below---'' s) (outputs s)"

section \<open>Execute\<close>

text \<open>The \<^verbatim>\<open>for\<close> loop of \<^verbatim>\<open>execute\<close> over the lines, with its \<^verbatim>\<open>break\<close>.\<close>

fun parse_lines :: "host \<Rightarrow> interp \<Rightarrow> string list \<Rightarrow> unit result" where
  "parse_lines h s [] = (Inr (), s)"
| "parse_lines h s (line # rest) =
     (if \<not> code_running s then (Inr (), s)
      else (case parse_command h s (strip line) of
              (Inl e, s1) \<Rightarrow> (Inl e, s1)
            | (Inr u, s1) \<Rightarrow> parse_lines h s1 rest))"

text \<open>What \<^verbatim>\<open>execute\<close> does with the lines of the program.\<close>

definition execute_lines :: "host \<Rightarrow> interp \<Rightarrow> string list \<Rightarrow> unit result option" where
  "execute_lines h s lines =
     (case parse_lines h s lines of
        (Inl e, s1) \<Rightarrow> Some (Inl e, s1)
      | (Inr u, s1) \<Rightarrow>
          (case resolve_inputs h s1 of
             (Inl e, s2) \<Rightarrow> Some (Inl e, s2)
           | (Inr u, s2) \<Rightarrow> handle_outputs h s2))"

definition execute :: "host \<Rightarrow> interp \<Rightarrow> string \<Rightarrow> unit result option" where
  "execute h s code = execute_lines h s (split_on CHR ''\<newline>'' (strip code))"

section \<open>A host for the examples\<close>

text \<open>
  The theorems below hold for every host. The examples run on this one, which follows
  CPython 3 on what the examples give it: its parser reads an expression of one token
  (a name that is not a keyword, a decimal integer literal, a double-quoted string
  literal without escapes) and rejects every other text; its operators work on integers
  and strings and have no floating-point result; no example sleeps.
\<close>

definition digits :: string where
  "digits = ''0123456789''"

definition ascii_word :: string where
  "ascii_word = ''abcdefghijklmnopqrstuvwxyzABCDEFGHIJKLMNOPQRSTUVWXYZ_0123456789''"

definition python_keywords :: "string list" where
  "python_keywords = [''False'', ''None'', ''True'', ''and'', ''as'', ''assert'', ''async'', ''await'',
     ''break'', ''class'', ''continue'', ''def'', ''del'', ''elif'', ''else'', ''except'',
     ''finally'', ''for'', ''from'', ''global'', ''if'', ''import'', ''in'', ''is'', ''lambda'',
     ''nonlocal'', ''not'', ''or'', ''pass'', ''raise'', ''return'', ''try'', ''while'', ''with'',
     ''yield'']"

fun nat_of_digits :: "nat \<Rightarrow> string \<Rightarrow> nat" where
  "nat_of_digits acc [] = acc"
| "nat_of_digits acc (c # cs) =
     nat_of_digits (10 * acc + length (takeWhile (\<lambda>d. d \<noteq> c) digits)) cs"

function show_nat :: "nat \<Rightarrow> string" where
  "show_nat n = (if n < 10 then [digits ! n] else show_nat (n div 10) @ [digits ! (n mod 10)])"
  by pat_completeness auto
termination
  by (relation "measure (\<lambda>n. n)") auto

declare show_nat.simps [simp del]

definition show_int :: "int \<Rightarrow> string" where
  "show_int i = (if i < 0 then ''-'' @ show_nat (nat (- i)) else show_nat (nat i))"

definition example_parse :: "string \<Rightarrow> expr option" where
  "example_parse t =
     (if isidentifier t \<and> list_all (\<lambda>c. c \<in> set ascii_word) t \<and> t \<notin> set python_keywords
      then Some (Name t)
      else if t \<noteq> [] \<and> list_all (\<lambda>c. c \<in> set digits) t \<and>
              (hd t \<noteq> CHR ''0'' \<or> list_all (\<lambda>c. c = CHR ''0'') t)
      then Some (Num (PInt (int (nat_of_digits 0 t))))
      else if 2 \<le> length t \<and> hd t = CHR 0x22 \<and> last t = CHR 0x22 \<and>
              list_all (\<lambda>c. c \<notin> set [CHR 0x22, CHR 0x5C, CHR 0x0A, CHR 0x0D]) (butlast (tl t))
      then Some (Str (butlast (tl t)))
      else None)"

fun example_add :: "pyval \<Rightarrow> pyval \<Rightarrow> pyval option" where
  "example_add (VNum (PInt a)) (VNum (PInt b)) = Some (VNum (PInt (a + b)))"
| "example_add (VStr a) (VStr b) = Some (VStr (a @ b))"
| "example_add a b = None"

fun example_sub :: "pyval \<Rightarrow> pyval \<Rightarrow> pyval option" where
  "example_sub (VNum (PInt a)) (VNum (PInt b)) = Some (VNum (PInt (a - b)))"
| "example_sub a b = None"

fun example_mul :: "pyval \<Rightarrow> pyval \<Rightarrow> pyval option" where
  "example_mul (VNum (PInt a)) (VNum (PInt b)) = Some (VNum (PInt (a * b)))"
| "example_mul (VStr a) (VNum (PInt b)) = Some (VStr (concat (replicate (nat b) a)))"
| "example_mul (VNum (PInt a)) (VStr b) = Some (VStr (concat (replicate (nat a) b)))"
| "example_mul a b = None"

definition example_int :: "string \<Rightarrow> int option" where
  "example_int t =
     (let u = strip t;
          negative = (u \<noteq> [] \<and> hd u = CHR ''-'');
          body = (if u \<noteq> [] \<and> hd u \<in> set ''+-'' then tl u else u)
      in if body \<noteq> [] \<and> list_all (\<lambda>c. c \<in> set digits \<or> c = CHR ''_'') body \<and>
            hd body \<noteq> CHR ''_'' \<and> last body \<noteq> CHR ''_'' \<and> \<not> contains body ''__''
         then Some ((if negative then - 1 else 1) *
                    int (nat_of_digits 0 (filter (\<lambda>c. c \<noteq> CHR ''_'') body)))
         else None)"

fun example_str :: "pynum \<Rightarrow> string" where
  "example_str (PInt i) = show_int i"
| "example_str n = ''?''"

fun example_sleep :: "pynum \<Rightarrow> string option" where
  "example_sleep (PInt i) = (if i < 0 then Some ''sleep length must be non-negative'' else None)"
| "example_sleep n = None"

definition example_host :: host where
  "example_host =
     \<lparr>ast_parse = example_parse, operator_add = example_add, operator_sub = example_sub,
      operator_mul = example_mul, operator_truediv = (\<lambda>a b. None), int_of_str = example_int,
      str_of_num = example_str, time_sleep = example_sleep\<rparr>"

section \<open>The order of events that the specification asks for\<close>

text \<open>
  Following the specification, not the code: the events of resolving a queue of input
  requests in FIFO order against the lines of standard input. Each request shows its
  prompt and reads one line; at the end of the input the prompt is the last event.
\<close>

fun fifo_resolution :: "(string option \<times> string) list \<Rightarrow> string list \<Rightarrow> event list" where
  "fifo_resolution [] ls = []"
| "fifo_resolution ((v, p) # qs) [] = [Print p]"
| "fifo_resolution ((v, p) # qs) (l # ls) = Print p # ReadLine l # fifo_resolution qs ls"

text \<open>
  Following the specification, not the code: the request that an accepted line queues.
  A line that is not a comment, contains \<^verbatim>\<open>=\<close> and \<^verbatim>\<open>input(\<close> and ends with \<^verbatim>\<open>)\<close> is
  split once at the first \<^verbatim>\<open>=\<close>; the name is the left side and the prompt is the text
  inside \<^verbatim>\<open>input("...")\<close> on the right side. Every other line queues nothing.
\<close>

definition queued_request :: "string \<Rightarrow> (string option \<times> string) list" where
  "queued_request command =
     (if command \<noteq> [] \<and> \<not> startswith command ''***'' \<and> CHR ''='' \<in> set command \<and>
         contains command ''input('' \<and> endswith command '')''
      then (case split_first CHR ''='' command of
              Some (l, r) \<Rightarrow> [(Some (strip l), strip (slice_to_neg (strip r) 7 2))]
            | None \<Rightarrow> [])
      else [])"

text \<open>The requests of a program in source order: those of the lines before the first
  \<^verbatim>\<open>end\<close> line.\<close>

definition queued_requests :: "string list \<Rightarrow> (string option \<times> string) list" where
  "queued_requests lines =
     concat (map (\<lambda>l. queued_request (strip l)) (takeWhile (\<lambda>l. strip l \<noteq> ''end'') lines))"

definition is_read :: "event \<Rightarrow> bool" where
  "is_read e = (case e of ReadLine l \<Rightarrow> True | _ \<Rightarrow> False)"

section \<open>Example programs\<close>

definition example_program :: string where
  "example_program =
     ''output(A)\<newline>x = input(\"Q1\")\<newline>output(/{x}/)\<newline>y = input(\"Q2\")\<newline>wait(0)\<newline>end''"

definition example_parsed :: interp where
  "example_parsed =
     \<lparr>variables = Map.empty,
      outputs = [''output(A)'', ''output(/{x}/)'', ''wait(0)''],
      inputs = [(Some ''x'', ''Q1''), (Some ''y'', ''Q2'')],
      code_running = False, hold = False, stdin = [''7'', ''hi''],
      trace = [Print ''---Execution of function is below---'']\<rparr>"

definition example_final :: interp where
  "example_final =
     \<lparr>variables = [''x'' \<mapsto> VNum (PInt 7), ''y'' \<mapsto> VStr ''hi''],
      outputs = [''output(A)'', ''output(/{x}/)'', ''wait(0)''],
      inputs = [(Some ''x'', ''Q1''), (Some ''y'', ''Q2'')],
      code_running = False, hold = False, stdin = [],
      trace = [Print ''---Execution of function is below---'',
               Print ''Q1'', ReadLine ''7'', Print ''Q2'', ReadLine ''hi'',
               Print ''---Execution of code is below---'',
               Print ''A'', Print ''7'', Print ''Waiting for 0 seconds...'', Sleep (PInt 0)]\<rparr>"

section \<open>Facts about the text operations\<close>

lemma startswith_Cons:
  "startswith s (c # p) = (case s of [] \<Rightarrow> False | d # t \<Rightarrow> d = c \<and> startswith t p)"
  by (cases s) (auto simp: startswith_def)

lemma startswith_append: "startswith s p \<longleftrightarrow> (\<exists>t. s = p @ t)"
proof
  assume "startswith s p"
  then have "s = p @ drop (length p) s"
    unfolding startswith_def by (metis append_take_drop_id)
  then show "\<exists>t. s = p @ t" ..
next
  assume "\<exists>t. s = p @ t"
  then show "startswith s p" by (auto simp: startswith_def)
qed

section \<open>The evaluator and the template substitution read the state\<close>

lemma eval_node_state: "snd (eval_node h s e) = s"
proof (induction e arbitrary: s)
  case (BinOp l opr r)
  then show ?case
    by (auto split: prod.splits sum.splits option.splits) (metis snd_conv)+
qed (auto split: option.splits)

lemma evaluate_expression_state: "snd (evaluate_expression h s e) = s"
  by (auto simp: evaluate_expression_def split: option.splits prod.splits sum.splits)
     (metis eval_node_state snd_conv)+

lemma evaluate_expression_same: "evaluate_expression h s e = (r, s') \<Longrightarrow> s' = s"
  using evaluate_expression_state [of h s e] by simp

lemma format_string_state:
  assumes "format_string h s t = Some y"
  shows "snd y = s"
proof (rule format_string.raw_induct [where P = "\<lambda>h s t y. snd y = s", OF _ assms], goal_cases)
  case (1 f h s template y)
  then show ?case
    by (auto split: if_splits option.splits)
qed

text \<open>
  Claim C9: \<^verbatim>\<open>evaluate_expression\<close> and \<^verbatim>\<open>format_string\<close> never change the interpreter:
  the state after a call, whether it returned a value or raised, is the state before it
  (the variables, both queues, both flags, and the terminal as well).
\<close>

theorem evaluation_and_formatting_leave_state:
  "snd (evaluate_expression h s e) = s \<and>
   (\<forall>r s'. format_string h s t = Some (r, s') \<longrightarrow> s' = s)"
  using evaluate_expression_state format_string_state by fastforce

theorem evaluation_and_formatting_leave_state_witness:
  "snd (evaluate_expression example_host ((init [])\<lparr>variables := [''x'' \<mapsto> VNum (PInt 1)]\<rparr>) ''y'') =
     (init [])\<lparr>variables := [''x'' \<mapsto> VNum (PInt 1)]\<rparr> \<and>
   format_string example_host ((init [])\<lparr>variables := [''x'' \<mapsto> VNum (PInt 1)]\<rparr>) ''a /{x}/'' =
     Some (Inr ''a 1'', (init [])\<lparr>variables := [''x'' \<mapsto> VNum (PInt 1)]\<rparr>)"
  using evaluation_and_formatting_leave_state
    [of example_host "(init [])\<lparr>variables := [''x'' \<mapsto> VNum (PInt 1)]\<rparr>" "''y''" "''a /{x}/''"]
  by (simp add: format_string.simps contains_def startswith_def str_slice_def strip_def
      is_space_def whitespace_def replace_first_def str_of_def example_host_def show_int_def
      show_nat.simps digits_def init_def)

section \<open>Assignment\<close>

text \<open>
  Claim C10: when the right-hand side of an assignment fails to evaluate, whatever the
  reason, \<^verbatim>\<open>assign_variable\<close> raises the \<^verbatim>\<open>SyntaxError\<close> "Invalid value or expression:"
  followed by the right-hand side, not the error of the evaluator, and the state (the
  variables with it) is as before.
\<close>

theorem failed_assignment_reports_invalid_value:
  assumes "code_running s" and "split_first CHR ''='' command = Some (l, r)"
    and "isidentifier (strip l)" and "fst (evaluate_expression h s (strip r)) = Inl e"
  shows "assign_variable h s command =
     (Inl (SyntaxError (''Invalid value or expression: '' @ strip r)), s)"
proof -
  obtain s' where "evaluate_expression h s (strip r) = (Inl e, s')"
    using assms(4) by (cases "evaluate_expression h s (strip r)") auto
  moreover from this have "s' = s"
    by (rule evaluate_expression_same)
  ultimately show ?thesis
    using assms(1-3) by (simp add: assign_variable_def)
qed

theorem failed_assignment_reports_invalid_value_witness:
  "code_running (init []) \<and> split_first CHR ''='' ''y = x'' = Some (''y '', '' x'') \<and>
   isidentifier (strip ''y '') \<and>
   fst (evaluate_expression example_host (init []) (strip '' x'')) =
     Inl (SyntaxError ''Invalid arithmetic or string expression: x'') \<and>
   assign_variable example_host (init []) ''y = x'' =
     (Inl (SyntaxError ''Invalid value or expression: x''), init [])"
  using failed_assignment_reports_invalid_value
    [of "init []" "''y = x''" "''y ''" "'' x''" example_host
        "SyntaxError ''Invalid arithmetic or string expression: x''"]
  by (simp add: init_def split_first_def strip_def is_space_def whitespace_def isidentifier_def
      id_start_def id_continue_def evaluate_expression_def example_host_def example_parse_def
      ascii_word_def python_keywords_def)

section \<open>The command parser\<close>

text \<open>
  Claim C2 fails on the code: a line of the bare form \<^verbatim>\<open>input("<prompt>")\<close> with no
  \<^verbatim>\<open>=\<close> never reaches \<^verbatim>\<open>queue_input\<close>; the parser raises "Unknown command" and queues
  nothing.
\<close>

theorem bare_input_is_unknown_command:
  assumes "startswith command ''input(\"''" and "endswith command ''\")''"
    and "CHR ''='' \<notin> set command"
  shows "parse_command h s command = (Inl (SyntaxError (''Unknown command: '' @ command)), s)"
proof -
  obtain t where c: "command = ''input(\"'' @ t"
    using assms(1) by (auto simp: startswith_append)
  show ?thesis
    using assms(3) unfolding c
    by (simp add: parse_command_def startswith_Cons)
qed

theorem bare_input_is_unknown_command_witness:
  "startswith ''input(\"Name?\")'' ''input(\"'' \<and> endswith ''input(\"Name?\")'' ''\")'' \<and>
   CHR ''='' \<notin> set ''input(\"Name?\")'' \<and>
   parse_command example_host (init []) ''input(\"Name?\")'' =
     (Inl (SyntaxError ''Unknown command: input(\"Name?\")''), init [])"
  using bare_input_is_unknown_command [of "''input(\"Name?\")''" example_host "init []"]
  by (simp add: startswith_def endswith_def)

text \<open>
  Claim C8, as the code has it: a line that starts with \<^verbatim>\<open>output(\<close> or \<^verbatim>\<open>wait(\<close>, ends
  with \<^verbatim>\<open>)\<close> and does not contain both \<^verbatim>\<open>=\<close> and \<^verbatim>\<open>input(\<close> is only appended to the
  output queue: the variables, the input queue, both flags and the terminal are as
  before, so nothing is evaluated, substituted or printed.
\<close>

theorem output_line_only_enqueues:
  assumes "startswith command ''output('' \<or> startswith command ''wait(''"
    and "endswith command '')''"
    and "\<not> (CHR ''='' \<in> set command \<and> contains command ''input('')"
  shows "parse_command h s command = (Inr (), s\<lparr>outputs := outputs s @ [command]\<rparr>)"
proof -
  have ne: "command \<noteq> []" and nc: "\<not> startswith command ''***''"
    using assms(1) by (auto simp: startswith_Cons split: list.splits)
  show ?thesis
    using assms ne nc by (auto simp: parse_command_def)
qed

theorem output_line_only_enqueues_witness:
  "(startswith ''output(/{x}/ = x)'' ''output('' \<or> startswith ''output(/{x}/ = x)'' ''wait('') \<and>
   endswith ''output(/{x}/ = x)'' '')'' \<and>
   CHR ''='' \<in> set ''output(/{x}/ = x)'' \<and> \<not> contains ''output(/{x}/ = x)'' ''input('' \<and>
   parse_command example_host (init []) ''output(/{x}/ = x)'' =
     (Inr (), (init [])\<lparr>outputs := [''output(/{x}/ = x)'']\<rparr>)"
  using output_line_only_enqueues [of "''output(/{x}/ = x)''" example_host "init []"]
  by (simp add: startswith_def endswith_def contains_def init_def)

text \<open>
  Claim C8 as stated fails on a line that also contains \<^verbatim>\<open>=\<close> and \<^verbatim>\<open>input(\<close>: the
  input-request rule comes first, and the line is rejected with nothing queued.
\<close>

theorem output_line_with_input_call_is_rejected:
  "startswith ''output(a=input(b))'' ''output('' \<and> endswith ''output(a=input(b))'' '')'' \<and>
   parse_command example_host (init []) ''output(a=input(b))'' =
     (Inl (SyntaxError ''Invalid variable name: output(a''), init [])"
  by (simp add: parse_command_def startswith_def endswith_def contains_def queue_input_def
      split_first_def strip_def is_space_def whitespace_def isidentifier_def id_start_def
      id_continue_def)

section \<open>The expression evaluator\<close>

text \<open>
  Claim C5 fails on the code: for a bare identifier that is not in the variables,
  \<^verbatim>\<open>_eval\<close> raises "Undefined variable:" with the name, but the \<^verbatim>\<open>try\<close> block of
  \<^verbatim>\<open>evaluate_expression\<close> catches it, and the error that leaves the evaluator is
  "Invalid arithmetic or string expression:" with the expression.
\<close>

theorem undefined_variable_message_is_replaced:
  assumes "ast_parse h e = Some (Name x)" and "variables s x = None"
  shows "eval_node h s (Name x) = (Inl (SyntaxError (''Undefined variable: '' @ x)), s) \<and>
     evaluate_expression h s e =
       (Inl (SyntaxError (''Invalid arithmetic or string expression: '' @ e)), s)"
  using assms by (simp add: evaluate_expression_def)

theorem undefined_variable_message_is_replaced_witness:
  "ast_parse example_host ''x'' = Some (Name ''x'') \<and> variables (init []) ''x'' = None \<and>
   eval_node example_host (init []) (Name ''x'') =
     (Inl (SyntaxError ''Undefined variable: x''), init []) \<and>
   evaluate_expression example_host (init []) ''x'' =
     (Inl (SyntaxError ''Invalid arithmetic or string expression: x''), init [])"
  using undefined_variable_message_is_replaced [of example_host "''x''" "''x''" "init []"]
  by (simp add: example_host_def example_parse_def isidentifier_def id_start_def id_continue_def
      ascii_word_def python_keywords_def init_def)

section \<open>Template substitution\<close>

lemma padded_placeholder_loops:
  assumes "format_string h s t = Some y"
  shows "\<not> (t = ''/{ x }/'' \<and> variables s ''x'' \<noteq> None)"
proof (rule format_string.raw_induct
    [where P = "\<lambda>h s t y. \<not> (t = ''/{ x }/'' \<and> variables s ''x'' \<noteq> None)", OF _ assms],
    goal_cases)
  case (1 f h s template y)
  show ?case
  proof
    assume a: "template = ''/{ x }/'' \<and> variables s ''x'' \<noteq> None"
    then obtain v where v: "variables s ''x'' = Some v" by auto
    have "f h s ''/{ x }/'' = Some y"
      using "1"(2) a v
      by (simp add: contains_def startswith_def str_slice_def strip_def is_space_def
          whitespace_def replace_first_def)
    then show False
      using "1"(1) a by blast
  qed
qed

text \<open>
  Claim C4 fails on the code: on the template \<^verbatim>\<open>/{ x }/\<close>, whose placeholder names the
  variable \<^verbatim>\<open>x\<close> after trimming, with \<^verbatim>\<open>x\<close> in the variables, \<^verbatim>\<open>format_string\<close> does
  not return. The name is trimmed, the text \<^verbatim>\<open>/{x}/\<close> that is then replaced does not
  occur, and the loop goes on with the same template.
\<close>

theorem format_string_padded_placeholder_diverges:
  "format_string h ((init [])\<lparr>variables := [''x'' \<mapsto> VNum (PInt 1)]\<rparr>) ''/{ x }/'' = None"
proof (cases "format_string h ((init [])\<lparr>variables := [''x'' \<mapsto> VNum (PInt 1)]\<rparr>) ''/{ x }/''")
  case None
  then show ?thesis .
next
  case (Some y)
  then show ?thesis
    using padded_placeholder_loops [OF Some] by simp
qed

section \<open>The parse pass stops at end\<close>

lemma parse_lines_stopped: "\<not> code_running s \<Longrightarrow> parse_lines h s ls = (Inr (), s)"
  by (cases ls) auto

lemma parse_lines_append:
  "parse_lines h s (xs @ ys) =
     (case parse_lines h s xs of
        (Inl e, s1) \<Rightarrow> (Inl e, s1)
      | (Inr u, s1) \<Rightarrow> parse_lines h s1 ys)"
proof (induction xs arbitrary: s)
  case Nil
  show ?case by simp
next
  case (Cons x xs)
  show ?case
  proof (cases "code_running s")
    case False
    then show ?thesis by (simp add: parse_lines_stopped)
  next
    case True
    then show ?thesis
      using Cons.IH by (auto split: prod.splits sum.splits)
  qed
qed

lemma parse_command_end_line: "parse_command h s ''end'' = end_program s"
  by (simp add: parse_command_def startswith_def endswith_def contains_def)

lemma parse_lines_end:
  assumes "strip l = ''end''"
  shows "parse_lines h s (l # post) = parse_lines h s [l]"
proof (cases "code_running s")
  case False
  then show ?thesis by (simp add: parse_lines_stopped)
next
  case True
  have "\<not> code_running (snd (end_program s))"
    by (simp add: end_program_def print_def)
  then show ?thesis
    using True assms
    by (auto simp: parse_command_end_line parse_lines_stopped split: prod.splits sum.splits)
qed

text \<open>
  Claim C7: the lines after an \<^verbatim>\<open>end\<close> line are never parsed or executed. Whatever
  they are, the parse pass and the whole run give the result and the state that they
  give on the program cut after that line, so the skipped lines raise no error.
\<close>

theorem lines_after_end_are_skipped:
  assumes "split_on CHR ''\<newline>'' (strip code) = pre @ l # post" and "strip l = ''end''"
  shows "parse_lines h s (split_on CHR ''\<newline>'' (strip code)) = parse_lines h s (pre @ [l]) \<and>
         execute h s code = execute_lines h s (pre @ [l])"
proof -
  have "parse_lines h s (pre @ l # post) = parse_lines h s (pre @ [l])"
    using parse_lines_end [OF assms(2), of h _ post]
    by (simp add: parse_lines_append split: prod.splits sum.splits)
  then show ?thesis
    using assms(1) by (simp add: execute_def execute_lines_def)
qed

theorem lines_after_end_are_skipped_witness:
  "split_on CHR ''\<newline>'' (strip ''x = 1\<newline> end \<newline>y = 2\<newline>no command\<newline>'') =
     [''x = 1''] @ '' end '' # [''y = 2'', ''no command''] \<and>
   strip '' end '' = ''end'' \<and>
   parse_lines example_host (init []) [''x = 1'', '' end '', ''y = 2'', ''no command''] =
     parse_lines example_host (init []) [''x = 1'', '' end ''] \<and>
   execute example_host (init []) ''x = 1\<newline> end \<newline>y = 2\<newline>no command\<newline>'' =
     execute_lines example_host (init []) [''x = 1'', '' end '']"
  using lines_after_end_are_skipped
    [of "''x = 1\<newline> end \<newline>y = 2\<newline>no command\<newline>''" "[''x = 1'']" "'' end ''"
        "[''y = 2'', ''no command'']" example_host "init []"]
  by (simp add: strip_def is_space_def whitespace_def)

section \<open>Loop and hold\<close>

text \<open>The condition that \<^verbatim>\<open>handle_loop\<close> looks up is the text between the parentheses
  without its first character.\<close>

lemma handle_loop_condition:
  "handle_loop s (''loop if('' @ ident @ '')'') =
     (Inr (), s\<lparr>hold := (variables s (strip (drop 1 ident)) = Some (VStr ''true''))\<rparr>)"
  by (simp add: handle_loop_def slice_to_neg_def Let_def dom_def)

text \<open>
  Claim C3 fails on the code: with \<^verbatim>\<open>flag\<close> bound to the string \<^verbatim>\<open>true\<close> and the hold
  flag set, the line \<^verbatim>\<open>loop if(flag)\<close> clears the hold flag, because the name that is
  looked up is \<^verbatim>\<open>lag\<close>.
\<close>

theorem loop_if_drops_first_character:
  "parse_lines example_host (init []) [''flag = \"true\"'', ''not hold'', ''loop if(flag)''] =
     (Inr (), (init [])\<lparr>variables := [''flag'' \<mapsto> VStr ''true''], hold := False\<rparr>) \<and>
   parse_lines example_host (init []) [''flag = \"true\"'', ''not hold''] =
     (Inr (), (init [])\<lparr>variables := [''flag'' \<mapsto> VStr ''true''], hold := True\<rparr>)"
  by (simp add: init_def strip_def is_space_def whitespace_def parse_command_def startswith_def
      endswith_def contains_def assign_variable_def split_first_def isidentifier_def id_start_def
      id_continue_def evaluate_expression_def example_host_def example_parse_def ascii_word_def
      python_keywords_def not_hold_def handle_loop_def slice_to_neg_def digits_def)

section \<open>Inputs before outputs\<close>

text \<open>The parse pass reads nothing and prints at most the banner of \<^verbatim>\<open>end\<close>.\<close>

lemma queue_input_io:
  "queue_input s c = (r, s') \<Longrightarrow> trace s' = trace s \<and> stdin s' = stdin s"
  by (auto simp: queue_input_def Let_def split: if_splits option.splits prod.splits)

lemma assign_variable_io:
  "assign_variable h s c = (r, s') \<Longrightarrow> trace s' = trace s \<and> stdin s' = stdin s"
  by (auto simp: assign_variable_def Let_def dest: evaluate_expression_same
      split: if_splits option.splits prod.splits sum.splits)

lemma handle_loop_io:
  "handle_loop s c = (r, s') \<Longrightarrow> trace s' = trace s \<and> stdin s' = stdin s"
  by (auto simp: handle_loop_def Let_def split: if_splits)

lemma parse_command_io:
  assumes "parse_command h s c = (r, s')"
  shows "stdin s' = stdin s \<and>
     (trace s' = trace s \<or>
      trace s' = trace s @ [Print ''---Execution of function is below---''] \<and> \<not> code_running s')"
  using assms queue_input_io [of s c r s'] assign_variable_io [of h s c r s']
    handle_loop_io [of s c r s']
  unfolding parse_command_def
  by (auto simp: finish_loop_def not_hold_def end_program_def print_def split: if_splits)

lemma parse_lines_io:
  "parse_lines h s ls = (r, s') \<Longrightarrow>
     stdin s' = stdin s \<and>
     (trace s' = trace s \<or> trace s' = trace s @ [Print ''---Execution of function is below---''])"
proof (induction ls arbitrary: s)
  case Nil
  then show ?case by simp
next
  case (Cons l ls)
  show ?case
  proof (cases "code_running s")
    case False
    then show ?thesis using Cons.prems by simp
  next
    case True
    obtain r1 s1 where step: "parse_command h s (strip l) = (r1, s1)"
      by (cases "parse_command h s (strip l)")
    note io = parse_command_io [OF step]
    show ?thesis
    proof (cases r1)
      case (Inl e)
      then show ?thesis using Cons.prems True step io by auto
    next
      case (Inr u)
      then have rest: "parse_lines h s1 ls = (r, s')"
        using Cons.prems True step by simp
      show ?thesis
      proof (cases "code_running s1")
        case False
        then have "s' = s1" using rest by (simp add: parse_lines_stopped)
        then show ?thesis using io by auto
      next
        case True
        then have "trace s1 = trace s" and "stdin s1 = stdin s" using io by auto
        then show ?thesis using Cons.IH [OF rest] by simp
      qed
    qed
  qed
qed

lemma run_inputs_trace:
  "run_inputs h s q = (r, s') \<Longrightarrow>
     trace s' = trace s @ fifo_resolution q (stdin s) \<and>
     (if length q \<le> length (stdin s) then r = Inr () else r = Inl EOFError)"
proof (induction q arbitrary: s)
  case Nil
  then show ?case by auto
next
  case (Cons a q)
  obtain v p where a: "a = (v, p)" by (cases a)
  show ?case
  proof (cases "stdin s")
    case Nil
    then show ?thesis using Cons.prems a by (auto simp: print_def)
  next
    case (Cons l ls)
    then show ?thesis
      using Cons.prems a Cons.IH
      by (auto simp: print_def Let_def split: option.splits if_splits)
  qed
qed

lemma handle_wait_trace:
  "handle_wait h s v = (r, s') \<Longrightarrow> \<exists>evs. trace s' = trace s @ evs \<and> list_all (\<lambda>e. \<not> is_read e) evs"
  using evaluate_expression_state [of h s v]
  by (auto simp: handle_wait_def print_def Let_def is_read_def
      split: prod.splits sum.splits pyval.splits pynum.splits option.splits)

lemma run_outputs_trace:
  "run_outputs h s cs = Some (r, s') \<Longrightarrow>
     \<exists>evs. trace s' = trace s @ evs \<and> list_all (\<lambda>e. \<not> is_read e) evs"
proof (induction cs arbitrary: s)
  case Nil
  then show ?case by auto
next
  case (Cons c cs)
  show ?case
  proof (cases "startswith c ''output('' \<and> endswith c '')''")
    case True
    show ?thesis
    proof (cases "format_string h s (strip (slice_to_neg c 7 1))")
      case None
      then show ?thesis using Cons.prems True by simp
    next
      case (Some y)
      obtain res s1 where y: "y = (res, s1)" by (cases y)
      have s1: "s1 = s" using format_string_state [OF Some] y by simp
      show ?thesis
      proof (cases res)
        case (Inl e)
        then show ?thesis using Cons.prems True Some y s1 by auto
      next
        case (Inr t)
        then have "run_outputs h (print t s) cs = Some (r, s')"
          using Cons.prems True Some y s1 by simp
        from Cons.IH [OF this] show ?thesis
          by (auto simp: print_def is_read_def)
      qed
    qed
  next
    case False
    note nout = False
    show ?thesis
    proof (cases "startswith c ''wait('' \<and> endswith c '')''")
      case False
      then show ?thesis using Cons.prems nout by auto
    next
      case True
      obtain res s1 where w: "handle_wait h s (strip (slice_to_neg c 5 1)) = (res, s1)"
        by (cases "handle_wait h s (strip (slice_to_neg c 5 1))")
      from handle_wait_trace [OF w] obtain e1 where
        e1: "trace s1 = trace s @ e1" "list_all (\<lambda>e. \<not> is_read e) e1" by auto
      show ?thesis
      proof (cases res)
        case (Inl e)
        then show ?thesis using Cons.prems nout True w e1 by auto
      next
        case (Inr u)
        then have "run_outputs h s1 cs = Some (r, s')"
          using Cons.prems nout True w by simp
        from Cons.IH [OF this] show ?thesis
          using e1 by auto
      qed
    qed
  qed
qed

text \<open>The parse pass appends each request at the tail of the input queue, in source
  order, and changes the queue in no other way.\<close>

lemma queue_input_inputs:
  assumes "queue_input s c = (Inr (), s')" and "CHR ''='' \<in> set c"
  shows "inputs s' = inputs s @
     (case split_first CHR ''='' c of
        Some (l, r) \<Rightarrow> [(Some (strip l), strip (slice_to_neg (strip r) 7 2))]
      | None \<Rightarrow> []) \<and> code_running s' = code_running s"
  using assms
  by (auto simp: queue_input_def Let_def split: if_splits option.splits prod.splits)

lemma assign_variable_inputs:
  "assign_variable h s c = (r, s') \<Longrightarrow> inputs s' = inputs s \<and> code_running s' = code_running s"
  by (auto simp: assign_variable_def Let_def dest: evaluate_expression_same
      split: if_splits option.splits prod.splits sum.splits)

lemma handle_loop_inputs:
  "handle_loop s c = (r, s') \<Longrightarrow> inputs s' = inputs s \<and> code_running s' = code_running s"
  by (auto simp: handle_loop_def Let_def split: if_splits)

lemma parse_command_inputs:
  assumes "parse_command h s c = (Inr (), s')"
  shows "inputs s' = inputs s @ queued_request c \<and>
         code_running s' = (code_running s \<and> c \<noteq> ''end'')"
proof (cases "c = ''end''")
  case True
  then show ?thesis
    using assms
    by (auto simp: parse_command_end_line end_program_def print_def queued_request_def)
next
  case False
  show ?thesis
  proof (cases "c = [] \<or> startswith c ''***''")
    case True
    then show ?thesis
      using assms False by (auto simp: parse_command_def queued_request_def)
  next
    case nocomment: False
    show ?thesis
    proof (cases "CHR ''='' \<in> set c \<and> contains c ''input('' \<and> endswith c '')''")
      case True
      then have "queue_input s c = (Inr (), s')"
        using assms nocomment by (simp add: parse_command_def)
      from queue_input_inputs [OF this] True nocomment show ?thesis
        using False by (simp add: queued_request_def)
    next
      case noinput: False
      then have q: "queued_request c = []"
        by (auto simp: queued_request_def)
      show ?thesis
        using assms nocomment noinput False q
          assign_variable_inputs [of h s c "Inr ()" s'] handle_loop_inputs [of s c "Inr ()" s']
        unfolding parse_command_def
        by (auto simp: finish_loop_def not_hold_def split: if_splits)
    qed
  qed
qed

lemma queued_requests_Cons:
  "queued_requests (l # ls) =
     (if strip l = ''end'' then [] else queued_request (strip l) @ queued_requests ls)"
  by (simp add: queued_requests_def)

lemma parse_lines_inputs:
  "parse_lines h s ls = (Inr (), s') \<Longrightarrow>
     inputs s' = inputs s @ (if code_running s then queued_requests ls else [])"
proof (induction ls arbitrary: s)
  case Nil
  then show ?case by (simp add: queued_requests_def)
next
  case (Cons l ls)
  show ?case
  proof (cases "code_running s")
    case False
    then show ?thesis using Cons.prems by simp
  next
    case True
    obtain r1 s1 where step: "parse_command h s (strip l) = (r1, s1)"
      by (cases "parse_command h s (strip l)")
    have r1: "r1 = Inr ()"
      using Cons.prems True step by (cases r1) auto
    have rest: "parse_lines h s1 ls = (Inr (), s')"
      using Cons.prems True step r1 by simp
    note st = parse_command_inputs [OF step [unfolded r1]]
    show ?thesis
    proof (cases "strip l = ''end''")
      case True
      then have "\<not> code_running s1" using st by simp
      then have "s' = s1" using rest by (simp add: parse_lines_stopped)
      then show ?thesis
        using st True \<open>code_running s\<close> by (simp add: queued_requests_Cons queued_request_def)
    next
      case False
      then have "code_running s1" using st True by simp
      then show ?thesis
        using Cons.IH [OF rest] st False \<open>code_running s\<close> by (simp add: queued_requests_Cons)
    qed
  qed
qed

text \<open>
  Claim C1: for a program that the parse pass accepts, the input queue after the pass is
  the queue before it followed by the requests of the program in source order. The input
  phase always ends, and its events are those of resolving that queue in FIFO order (for
  each request the prompt, then the line read), right after the events of the parse
  pass. The run goes on as the output phase from the state so reached: every event of a
  queued output or wait entry comes after every prompt and every read, and the output
  phase reads nothing. When the standard input ends before the queue does, the run raises
  at that prompt and no output entry is executed.
\<close>

theorem inputs_resolved_before_outputs:
  assumes "parse_lines h s (split_on CHR ''\<newline>'' (strip code)) = (Inr (), s1)"
  shows "inputs s1 =
       inputs s @
       (if code_running s then queued_requests (split_on CHR ''\<newline>'' (strip code)) else []) \<and>
   (\<exists>pre r2 s2.
     resolve_inputs h s1 = (r2, s2) \<and>
     (pre = [] \<or> pre = [Print ''---Execution of function is below---'']) \<and>
     trace s2 = trace s @ pre @ fifo_resolution (inputs s1) (stdin s) \<and>
     (if length (inputs s1) \<le> length (stdin s)
      then execute h s code = handle_outputs h s2 \<and>
           (\<forall>r s'. handle_outputs h s2 = Some (r, s') \<longrightarrow>
              (\<exists>evs. trace s' = trace s2 @ Print ''---Execution of code is below---'' # evs \<and>
                     list_all (\<lambda>e. \<not> is_read e) evs))
      else execute h s code = Some (Inl EOFError, s2)))"
proof -
  note queue = parse_lines_inputs [OF assms]
  from parse_lines_io [OF assms] obtain pre where
    pre: "trace s1 = trace s @ pre" "pre = [] \<or> pre = [Print ''---Execution of function is below---'']"
    and stdin: "stdin s1 = stdin s"
    by auto
  obtain r2 s2 where ri: "run_inputs h s1 (inputs s1) = (r2, s2)"
    by (cases "run_inputs h s1 (inputs s1)")
  from run_inputs_trace [OF ri] have
    t2: "trace s2 = trace s @ pre @ fifo_resolution (inputs s1) (stdin s)"
    and r2: "if length (inputs s1) \<le> length (stdin s) then r2 = Inr () else r2 = Inl EOFError"
    using pre stdin by auto
  have out: "\<exists>evs. trace s' = trace s2 @ Print ''---Execution of code is below---'' # evs \<and>
      list_all (\<lambda>e. \<not> is_read e) evs"
    if "handle_outputs h s2 = Some (r, s')" for r s'
    using run_outputs_trace [of h "print ''---Execution of code is below---'' s2" "outputs s2" r s'] that
    by (auto simp: handle_outputs_def print_def)
  have run: "execute h s code =
      (if length (inputs s1) \<le> length (stdin s) then handle_outputs h s2
       else Some (Inl EOFError, s2))"
    using assms ri r2 by (auto simp: execute_def execute_lines_def resolve_inputs_def)
  have "\<exists>pre r2 s2.
     resolve_inputs h s1 = (r2, s2) \<and>
     (pre = [] \<or> pre = [Print ''---Execution of function is below---'']) \<and>
     trace s2 = trace s @ pre @ fifo_resolution (inputs s1) (stdin s) \<and>
     (if length (inputs s1) \<le> length (stdin s)
      then execute h s code = handle_outputs h s2 \<and>
           (\<forall>r s'. handle_outputs h s2 = Some (r, s') \<longrightarrow>
              (\<exists>evs. trace s' = trace s2 @ Print ''---Execution of code is below---'' # evs \<and>
                     list_all (\<lambda>e. \<not> is_read e) evs))
      else execute h s code = Some (Inl EOFError, s2))"
    using ri pre(2) t2 run out
    by (intro exI [of _ pre] exI [of _ r2] exI [of _ s2]) (simp add: resolve_inputs_def)
  with queue show ?thesis by blast
qed

theorem inputs_resolved_before_outputs_witness:
  "parse_lines example_host (init [''7'', ''hi'']) (split_on CHR ''\<newline>'' (strip example_program)) =
     (Inr (), example_parsed) \<and>
   execute example_host (init [''7'', ''hi'']) example_program = Some (Inr (), example_final) \<and>
   queued_requests (split_on CHR ''\<newline>'' (strip example_program)) =
     [(Some ''x'', ''Q1''), (Some ''y'', ''Q2'')] \<and>
   inputs example_parsed =
     inputs (init [''7'', ''hi'']) @
     (if code_running (init [''7'', ''hi''])
      then queued_requests (split_on CHR ''\<newline>'' (strip example_program)) else []) \<and>
   (\<exists>pre r2 s2.
     resolve_inputs example_host example_parsed = (r2, s2) \<and>
     (pre = [] \<or> pre = [Print ''---Execution of function is below---'']) \<and>
     trace s2 = trace (init [''7'', ''hi'']) @ pre @
       fifo_resolution (inputs example_parsed) (stdin (init [''7'', ''hi''])) \<and>
     (if length (inputs example_parsed) \<le> length (stdin (init [''7'', ''hi'']))
      then execute example_host (init [''7'', ''hi'']) example_program =
             handle_outputs example_host s2 \<and>
           (\<forall>r s'. handle_outputs example_host s2 = Some (r, s') \<longrightarrow>
              (\<exists>evs. trace s' = trace s2 @ Print ''---Execution of code is below---'' # evs \<and>
                     list_all (\<lambda>e. \<not> is_read e) evs))
      else execute example_host (init [''7'', ''hi'']) example_program = Some (Inl EOFError, s2)))"
proof -
  have p: "parse_lines example_host (init [''7'', ''hi'']) (split_on CHR ''\<newline>'' (strip example_program)) =
     (Inr (), example_parsed)"
    by (simp add: example_program_def example_parsed_def init_def strip_def is_space_def
        whitespace_def parse_command_def startswith_def endswith_def contains_def
        queue_input_def split_first_def slice_to_neg_def isidentifier_def id_start_def
        id_continue_def end_program_def print_def)
  have e: "execute example_host (init [''7'', ''hi'']) example_program = Some (Inr (), example_final)"
    unfolding execute_def execute_lines_def p
    by (simp add: example_parsed_def example_final_def resolve_inputs_def handle_outputs_def
        print_def example_host_def example_int_def digits_def strip_def is_space_def
        whitespace_def contains_def startswith_def endswith_def slice_to_neg_def
        format_string.simps str_slice_def replace_first_def str_of_def show_int_def
        show_nat.simps handle_wait_def evaluate_expression_def example_parse_def
        isidentifier_def id_start_def id_continue_def ascii_word_def Let_def)
  have q: "queued_requests (split_on CHR ''\<newline>'' (strip example_program)) =
     [(Some ''x'', ''Q1''), (Some ''y'', ''Q2'')]"
    by (simp add: queued_requests_def queued_request_def example_program_def strip_def
        is_space_def whitespace_def startswith_def endswith_def contains_def split_first_def
        slice_to_neg_def)
  from inputs_resolved_before_outputs [OF p] p e q show ?thesis
    by blast
qed

section \<open>RuntimeError\<close>

text \<open>Only \<^verbatim>\<open>assign_variable\<close> raises \<^verbatim>\<open>RuntimeError\<close>, and the parse pass calls it only
  while the running flag is true.\<close>

lemma queue_input_no_runtime_error:
  "queue_input s c = (r, s') \<Longrightarrow> r \<noteq> Inl (RuntimeError m)"
  by (auto simp: queue_input_def Let_def split: if_splits option.splits prod.splits)

lemma assign_variable_no_runtime_error:
  "code_running s \<Longrightarrow> assign_variable h s c = (r, s') \<Longrightarrow> r \<noteq> Inl (RuntimeError m)"
  by (auto simp: assign_variable_def Let_def split: if_splits option.splits prod.splits sum.splits)

lemma parse_command_no_runtime_error:
  assumes "code_running s" and "parse_command h s c = (r, s')"
  shows "r \<noteq> Inl (RuntimeError m)"
  using assms queue_input_no_runtime_error [of s c r s' m]
    assign_variable_no_runtime_error [of s h c r s' m]
  unfolding parse_command_def
  by (auto simp: handle_loop_def finish_loop_def not_hold_def end_program_def Let_def
      split: if_splits)

lemma parse_lines_no_runtime_error:
  "parse_lines h s ls = (r, s') \<Longrightarrow> r \<noteq> Inl (RuntimeError m)"
proof (induction ls arbitrary: s)
  case Nil
  then show ?case by auto
next
  case (Cons l ls)
  show ?case
  proof (cases "code_running s")
    case False
    then show ?thesis using Cons.prems by auto
  next
    case True
    obtain r1 s1 where step: "parse_command h s (strip l) = (r1, s1)"
      by (cases "parse_command h s (strip l)")
    show ?thesis
    proof (cases r1)
      case (Inl e)
      then have "r = r1" using Cons.prems True step by simp
      then show ?thesis using parse_command_no_runtime_error [OF True step] by simp
    next
      case (Inr u)
      then have "parse_lines h s1 ls = (r, s')" using Cons.prems True step by simp
      then show ?thesis by (rule Cons.IH)
    qed
  qed
qed

lemma format_string_no_runtime_error:
  assumes "format_string h s t = Some y"
  shows "fst y \<noteq> Inl (RuntimeError m)"
proof (rule format_string.raw_induct
    [where P = "\<lambda>h s t y. fst y \<noteq> Inl (RuntimeError m)", OF _ assms], goal_cases)
  case (1 f h s template y)
  then show ?case
    by (auto split: if_splits option.splits)
qed

lemma handle_wait_no_runtime_error:
  "handle_wait h s v = (r, s') \<Longrightarrow> r \<noteq> Inl (RuntimeError m)"
  by (auto simp: handle_wait_def Let_def
      split: prod.splits sum.splits pyval.splits pynum.splits option.splits)

lemma run_outputs_no_runtime_error:
  "run_outputs h s cs = Some (r, s') \<Longrightarrow> r \<noteq> Inl (RuntimeError m)"
proof (induction cs arbitrary: s)
  case Nil
  then show ?case by auto
next
  case (Cons c cs)
  show ?case
  proof (cases "startswith c ''output('' \<and> endswith c '')''")
    case True
    show ?thesis
    proof (cases "format_string h s (strip (slice_to_neg c 7 1))")
      case None
      then show ?thesis using Cons.prems True by simp
    next
      case (Some y)
      obtain res s1 where y: "y = (res, s1)" by (cases y)
      show ?thesis
      proof (cases res)
        case (Inl e)
        then show ?thesis
          using Cons.prems True Some y format_string_no_runtime_error [OF Some] by auto
      next
        case (Inr t)
        then have "run_outputs h (print t s1) cs = Some (r, s')"
          using Cons.prems True Some y by simp
        then show ?thesis by (rule Cons.IH)
      qed
    qed
  next
    case False
    note nout = False
    show ?thesis
    proof (cases "startswith c ''wait('' \<and> endswith c '')''")
      case False
      then show ?thesis using Cons.prems nout by auto
    next
      case True
      obtain res s1 where w: "handle_wait h s (strip (slice_to_neg c 5 1)) = (res, s1)"
        by (cases "handle_wait h s (strip (slice_to_neg c 5 1))")
      show ?thesis
      proof (cases res)
        case (Inl e)
        then show ?thesis
          using Cons.prems nout True w handle_wait_no_runtime_error [OF w] by auto
      next
        case (Inr u)
        then have "run_outputs h s1 cs = Some (r, s')"
          using Cons.prems nout True w by simp
        then show ?thesis by (rule Cons.IH)
      qed
    qed
  qed
qed

lemma execute_no_runtime_error:
  assumes "execute h s code = Some (r, s')"
  shows "r \<noteq> Inl (RuntimeError m)"
proof -
  let ?ls = "split_on CHR ''\<newline>'' (strip code)"
  obtain r1 s1 where p: "parse_lines h s ?ls = (r1, s1)"
    by (cases "parse_lines h s ?ls")
  show ?thesis
  proof (cases r1)
    case (Inl e)
    then have "r = r1" using assms p by (simp add: execute_def execute_lines_def)
    then show ?thesis using parse_lines_no_runtime_error [OF p] by simp
  next
    case (Inr u)
    obtain r2 s2 where ri: "run_inputs h s1 (inputs s1) = (r2, s2)"
      by (cases "run_inputs h s1 (inputs s1)")
    from run_inputs_trace [OF ri] have r2: "r2 = Inr () \<or> r2 = Inl EOFError"
      by (auto split: if_splits)
    show ?thesis
    proof (cases r2)
      case (Inl e)
      then have "r = Inl EOFError"
        using assms p Inr ri r2 by (auto simp: execute_def execute_lines_def resolve_inputs_def)
      then show ?thesis by simp
    next
      case Inr2: (Inr u2)
      then have "run_outputs h (print ''---Execution of code is below---'' s2) (outputs s2) = Some (r, s')"
        using assms p Inr ri
        by (simp add: execute_def execute_lines_def resolve_inputs_def handle_outputs_def)
      then show ?thesis by (rule run_outputs_no_runtime_error)
    qed
  qed
qed

text \<open>
  Claim C6, as the code has it: an assignment attempted when the running flag is already
  false raises \<^verbatim>\<open>RuntimeError\<close>, whatever the text of the command is, so before the
  name is validated and before the right-hand side is evaluated; the state is as before.
  No run of \<^verbatim>\<open>execute\<close> reaches that failure: whatever the program and the starting
  state, a run that returns or raises does not raise \<^verbatim>\<open>RuntimeError\<close>.
\<close>

theorem assignment_when_stopped_is_runtime_error:
  "(\<not> code_running s \<longrightarrow>
      assign_variable h s command =
        (Inl (RuntimeError ''Code has already ended. Use 'end' to restart.''), s)) \<and>
   (execute h s0 code = Some (r, s') \<longrightarrow> r \<noteq> Inl (RuntimeError m))"
  using execute_no_runtime_error [of h s0 code r s' m]
  by (simp add: assign_variable_def)

theorem assignment_when_stopped_is_runtime_error_witness:
  "\<not> code_running ((init [])\<lparr>code_running := False\<rparr>) \<and>
   assign_variable example_host ((init [])\<lparr>code_running := False\<rparr>) ''9x = +'' =
     (Inl (RuntimeError ''Code has already ended. Use 'end' to restart.''),
      (init [])\<lparr>code_running := False\<rparr>) \<and>
   execute example_host (init []) ''foo\<newline>end\<newline>x = 1'' =
     Some (Inl (SyntaxError ''Unknown command: foo''), init []) \<and>
   (Inl (SyntaxError ''Unknown command: foo'') :: error + unit) \<noteq>
     Inl (RuntimeError ''Code has already ended. Use 'end' to restart.'')"
  using assignment_when_stopped_is_runtime_error
    [of "(init [])\<lparr>code_running := False\<rparr>" example_host "''9x = +''" "init []"
        "''foo\<newline>end\<newline>x = 1''" "Inl (SyntaxError ''Unknown command: foo'')" "init []"
        "''Code has already ended. Use 'end' to restart.''"]
  by (simp add: init_def execute_def execute_lines_def strip_def is_space_def whitespace_def
      parse_command_def startswith_def endswith_def contains_def)

text \<open>
  Claim C6 as stated fails on a program: the assignment line after \<^verbatim>\<open>end\<close> is never
  dispatched, and the run returns without an error.
\<close>

theorem assignment_line_after_end_is_skipped:
  "map_option fst (execute example_host (init []) ''end\<newline>x = 1'') = Some (Inr ())"
  by code_simp

end
